theory Spec2Isabelle
  imports Complex_Main
begin

section \<open>Monitoring engine: services/monitor_service.py\<close>

text \<open>
  A shallow embedding of the parts of \<open>MonitorService\<close> that decide health verdicts,
  raise and deduplicate alerts, fan updates out to WebSocket clients and start the
  engine. Python floats that hold percentages are modelled as \<open>real\<close>, Python ints as
  \<open>int\<close>, \<open>datetime\<close> values as an \<open>int\<close> number of microseconds (the resolution of
  \<open>datetime\<close>), strings as \<open>string\<close>.
\<close>

subsection \<open>Threshold table\<close>

text \<open>The dictionary \<open>self.alert_thresholds\<close>, one field per key.\<close>

record alert_thresholds =
  cpu_critical :: real
  cpu_warning :: real
  memory_critical :: real
  memory_warning :: real
  disk_critical :: real
  disk_warning :: real
  response_time_critical :: real
  response_time_warning :: real

text \<open>The values assigned in \<open>__init__\<close>.\<close>

definition init_alert_thresholds :: alert_thresholds where
  "init_alert_thresholds =
     \<lparr> cpu_critical = 90, cpu_warning = 80,
       memory_critical = 95, memory_warning = 85,
       disk_critical = 95, disk_warning = 90,
       response_time_critical = 5000, response_time_warning = 2000 \<rparr>"

subsection \<open>Measurement bundle\<close>

text \<open>
  \<open>health_data\<close> is a Python dict. The keys read by the functions below are fields of
  a record; a key that may be missing is an \<open>option\<close>. The nested dicts (\<open>checks\<close>,
  its entry \<open>ping\<close>, and \<open>http_check\<close>) are maps from key to string: the only entry
  read from them is \<open>status\<close>.
\<close>

type_synonym str_dict = "string \<rightharpoonup> string"

record health_data =
  checks :: "(string \<rightharpoonup> str_dict) option"
  cpu_usage :: "real option"
  memory_usage :: "real option"
  disk_usage :: "real option"
  http_check :: "str_dict option"

text \<open>\<open>d.get(key, default)\<close> on an optional entry.\<close>

definition get_or :: "'a option \<Rightarrow> 'a \<Rightarrow> 'a" where
  "get_or v dflt = (case v of None \<Rightarrow> dflt | Some x \<Rightarrow> x)"

text \<open>
  \<open>health_data.get('checks', {}).get('ping', {}).get('status')\<close>: a missing dict on
  the way is the empty dict, and the last \<open>get\<close> gives \<open>None\<close> for a missing key.
\<close>

definition ping_status_of :: "health_data \<Rightarrow> string option" where
  "ping_status_of data =
     get_or (get_or (checks data) Map.empty ''ping'') Map.empty ''status''"

subsection \<open>Health evaluator\<close>

text \<open>\<open>assess_overall_health\<close>, branch by branch in the order of the source.\<close>

definition assess_overall_health :: "alert_thresholds \<Rightarrow> health_data \<Rightarrow> string" where
  "assess_overall_health th data =
     (if ping_status_of data = Some ''down'' then ''critical''
      else
        let cpu = get_or (cpu_usage data) 0;
            mem = get_or (memory_usage data) 0;
            disk = get_or (disk_usage data) 0
        in
          if cpu > cpu_critical th \<or> mem > memory_critical th \<or> disk > disk_critical th
          then ''critical''
          else if cpu > cpu_warning th \<or> mem > memory_warning th \<or> disk > disk_warning th
          then ''warning''
          else if get_or (http_check data) Map.empty ''status'' = Some ''error''
          then ''warning''
          else ''healthy'')"

subsection \<open>Alerts and deduplication\<close>

text \<open>
  A row of the \<open>Alert\<close> table, with the columns that \<open>create_alert\<close> reads or writes
  (\<open>val\<close> is the column \<open>value\<close>). The model class itself is declared outside this
  file; \<open>updated_at\<close> is not passed to the constructor and is \<open>None\<close> on a row that
  was never updated. The table is the list of its rows in insertion order, and a query
  visits the rows in that order.
\<close>

record alert =
  server_id :: int
  severity :: string
  message :: string
  status :: string
  metric :: "string option"
  val :: "real option"
  count :: int
  created_at :: int
  updated_at :: "int option"

text \<open>\<open>timedelta(minutes=m)\<close> in microseconds.\<close>

definition timedelta_minutes :: "int \<Rightarrow> int" where
  "timedelta_minutes m = m * 60 * 1000000"

text \<open>The four conditions of the \<open>filter\<close> of the dedup query, at clock reading \<open>now\<close>.\<close>

definition dedup_filter :: "int \<Rightarrow> string \<Rightarrow> int \<Rightarrow> alert \<Rightarrow> bool" where
  "dedup_filter sid msg now a \<longleftrightarrow>
     server_id a = sid \<and> message a = msg \<and> status a = ''active''
     \<and> created_at a \<ge> now - timedelta_minutes 10"

text \<open>\<open>query.first()\<close>: the position of the first row that passes the filter.\<close>

fun first_index :: "('a \<Rightarrow> bool) \<Rightarrow> 'a list \<Rightarrow> nat option" where
  "first_index P [] = None"
| "first_index P (x # xs) =
     (if P x then Some 0 else map_option Suc (first_index P xs))"

text \<open>
  \<open>create_alert(server_id, severity, message, db, **kwargs)\<close>. The session \<open>db\<close> is
  passed in and returned; \<open>kw_metric\<close> and \<open>kw_value\<close> are \<open>kwargs.get('metric')\<close> and
  \<open>kwargs.get('value')\<close>; \<open>now\<close> is the reading of \<open>datetime.utcnow()\<close> during the
  call. The result is the table after the commit and the alert that is returned.
\<close>

definition create_alert ::
  "alert list \<Rightarrow> int \<Rightarrow> string \<Rightarrow> string \<Rightarrow> string option \<Rightarrow> real option \<Rightarrow> int
   \<Rightarrow> alert list \<times> alert" where
  "create_alert db sid sev msg kw_metric kw_value now =
     (case first_index (dedup_filter sid msg now) db of
        Some i \<Rightarrow>
          let existing_alert = (db ! i)\<lparr> count := count (db ! i) + 1, updated_at := Some now \<rparr>
          in (db[i := existing_alert], existing_alert)
      | None \<Rightarrow>
          let new_alert =
            \<lparr> server_id = sid, severity = sev, message = msg, status = ''active'',
              metric = kw_metric, val = kw_value, count = 1, created_at = now,
              updated_at = None \<rparr>
          in (db @ [new_alert], new_alert))"

text \<open>
  Successive calls of \<open>create_alert\<close> for one server and one message. A call is
  the severity, the two keyword arguments and the clock reading; the result lists the
  table after each call.
\<close>

type_synonym alert_call = "string \<times> string option \<times> real option \<times> int"

definition call_time :: "alert_call \<Rightarrow> int" where
  "call_time c = snd (snd (snd c))"

fun create_alerts :: "alert list \<Rightarrow> int \<Rightarrow> string \<Rightarrow> alert_call list \<Rightarrow> alert list list" where
  "create_alerts db sid msg [] = []"
| "create_alerts db sid msg ((sev, kw_metric, kw_value, now) # calls) =
     (let db' = fst (create_alert db sid sev msg kw_metric kw_value now)
      in db' # create_alerts db' sid msg calls)"

text \<open>Every call of the sequence finds the row at position \<open>i\<close> and updates it.\<close>

fun all_update :: "nat \<Rightarrow> alert list \<Rightarrow> int \<Rightarrow> string \<Rightarrow> alert_call list \<Rightarrow> bool" where
  "all_update i db sid msg [] = True"
| "all_update i db sid msg ((sev, kw_metric, kw_value, now) # calls) =
     (first_index (dedup_filter sid msg now) db = Some i
      \<and> all_update i (fst (create_alert db sid sev msg kw_metric kw_value now)) sid msg calls)"

text \<open>
  The lookup as the specification words it, for comparison with \<open>dedup_filter\<close>: an
  active alert with the same server and message that was created or updated within
  the trailing ten minutes.
\<close>

definition spec_dedup_filter :: "int \<Rightarrow> string \<Rightarrow> int \<Rightarrow> alert \<Rightarrow> bool" where
  "spec_dedup_filter sid msg now a \<longleftrightarrow>
     server_id a = sid \<and> message a = msg \<and> status a = ''active''
     \<and> (created_at a \<ge> now - timedelta_minutes 10
        \<or> (case updated_at a of None \<Rightarrow> False
            | Some u \<Rightarrow> u \<ge> now - timedelta_minutes 10))"

subsection \<open>Threshold checks\<close>

text \<open>
  The format spec \<open>.1f\<close> of an f-string: the value rounded to one decimal, ties to the
  even digit, then written in decimal. Python rounds the exact value of the float, and
  \<open>x\<close> stands for that exact value.
\<close>

fun decimal_digits :: "nat \<Rightarrow> string" where
  "decimal_digits n =
     (if n < 10 then [''0123456789'' ! n]
      else decimal_digits (n div 10) @ [''0123456789'' ! (n mod 10)])"

definition round_half_even :: "real \<Rightarrow> int" where
  "round_half_even x =
     (let n = \<lfloor>x\<rfloor>; f = x - of_int n
      in if f > 1 / 2 \<or> (f = 1 / 2 \<and> odd n) then n + 1 else n)"

definition format_1f :: "real \<Rightarrow> string" where
  "format_1f x =
     (let t = nat (round_half_even (\<bar>x\<bar> * 10))
      in (if x < 0 then ''-'' else [])
         @ decimal_digits (t div 10) @ ''.'' @ decimal_digits (t mod 10))"

text \<open>An entry of the list \<open>alerts_to_create\<close>: severity, message, metric, value.\<close>

datatype alert_data =
  AlertData (ad_severity: string) (ad_message: string) (ad_metric: string) (ad_value: real)

text \<open>
  The list \<open>alerts_to_create\<close> that \<open>check_health_thresholds\<close> builds: one
  \<open>if\<close>/\<open>elif\<close> per metric, cpu first, then memory, then disk.
\<close>

definition alerts_to_create :: "alert_thresholds \<Rightarrow> health_data \<Rightarrow> alert_data list" where
  "alerts_to_create th data =
     (let cpu = get_or (cpu_usage data) 0;
          mem = get_or (memory_usage data) 0;
          disk = get_or (disk_usage data) 0
      in
        (if cpu > cpu_critical th
         then [AlertData ''critical'' (''CPU usage critical: '' @ format_1f cpu @ ''%'')
                 ''cpu_usage'' cpu]
         else if cpu > cpu_warning th
         then [AlertData ''warning'' (''CPU usage high: '' @ format_1f cpu @ ''%'')
                 ''cpu_usage'' cpu]
         else [])
        @
        (if mem > memory_critical th
         then [AlertData ''critical'' (''Memory usage critical: '' @ format_1f mem @ ''%'')
                 ''memory_usage'' mem]
         else if mem > memory_warning th
         then [AlertData ''warning'' (''Memory usage high: '' @ format_1f mem @ ''%'')
                 ''memory_usage'' mem]
         else [])
        @
        (if disk > disk_critical th
         then [AlertData ''critical'' (''Disk usage critical: '' @ format_1f disk @ ''%'')
                 ''disk_usage'' disk]
         else if disk > disk_warning th
         then [AlertData ''warning'' (''Disk usage high: '' @ format_1f disk @ ''%'')
                 ''disk_usage'' disk]
         else []))"

text \<open>
  \<open>check_health_thresholds\<close>: every entry of the list goes to \<open>create_alert\<close>, in
  order, on the session left by the entry before it. The clock is read once for the
  whole evaluation.
\<close>

definition check_health_thresholds ::
  "alert_thresholds \<Rightarrow> int \<Rightarrow> health_data \<Rightarrow> alert list \<Rightarrow> int \<Rightarrow> alert list" where
  "check_health_thresholds th sid data db now =
     fold (\<lambda>alert_data db'.
             fst (create_alert db' sid (ad_severity alert_data) (ad_message alert_data)
                    (Some (ad_metric alert_data)) (Some (ad_value alert_data)) now))
          (alerts_to_create th data) db"

subsection \<open>Engine state, start and broadcast\<close>

text \<open>
  What a method does besides changing \<open>self\<close> is returned as a list of effects, in the
  order in which they happen: a \<open>send_text\<close> that went through (client id and
  message), the two log lines of the broadcast path (\<open>Failed to send update to client\<close>
  and \<open>WebSocket client ... disconnected\<close>, with the client id), any other
  \<open>logger.info\<close> line, and \<open>asyncio.create_task\<close> with the name of the coroutine.
\<close>

record update_message =
  um_type :: string
  um_server_id :: int
  um_data :: health_data
  um_timestamp :: int

datatype effect =
    SendText string update_message
  | LogSendFailed string
  | LogDisconnected string
  | LogInfo string
  | CreateTask string

text \<open>
  The fields of \<open>self\<close> that these methods read or write. \<open>websocket_clients\<close> is a
  dict from client id to connection: a list of entries in insertion order, with at most
  one entry per client id.
\<close>

record 'ws monitor_service =
  monitoring_active :: bool
  websocket_clients :: "(string \<times> 'ws) list"

definition start_monitoring :: "'ws monitor_service \<Rightarrow> 'ws monitor_service \<times> effect list" where
  "start_monitoring self =
     (if monitoring_active self then (self, [])
      else (self\<lparr> monitoring_active := True \<rparr>,
            [LogInfo ''Starting system monitoring...'',
             CreateTask ''health_check_loop'',
             CreateTask ''performance_monitoring_loop'',
             CreateTask ''service_monitoring_loop'',
             CreateTask ''network_monitoring_loop'',
             LogInfo ''All monitoring tasks started'']))"

definition remove_websocket_client ::
  "(string \<times> 'ws) list \<Rightarrow> string \<Rightarrow> (string \<times> 'ws) list \<times> effect list" where
  "remove_websocket_client clients client_id =
     (if client_id \<in> set (map fst clients)
      then (filter (\<lambda>entry. fst entry \<noteq> client_id) clients, [LogDisconnected client_id])
      else (clients, []))"

text \<open>
  The dict \<open>websocket_clients\<close> is shared with the websocket endpoint of
  \<open>Backend/main.py\<close>, which runs as one task per connection: it calls
  \<open>add_websocket_client\<close> after accepting a connection (line 451) and
  \<open>remove_websocket_client\<close> in its \<open>finally\<close>, when the connection has ended (line
  462). A coroutine runs alone between two awaits, so during
  \<open>broadcast_health_update\<close> these calls of other tasks run at
  \<open>await websocket.send_text(...)\<close> and nowhere else.
\<close>

datatype 'ws client_call =
    AddClient string 'ws
  | RemoveClient string

text \<open>
  While the dict is iterated its entries are kept as CPython keeps them, in slots in
  insertion order: \<open>del\<close> empties the slot of the key, a store under a key that is
  present overwrites the value in its slot, a store under a new key takes a new slot at
  the end. \<open>dict_items\<close> is the content of the dict: the slots that are not empty.
  (When a store under a new key finds the table full, CPython rebuilds it without the
  empty slots. That move is not part of the model; the properties below are about
  passes during which no client is added.)
\<close>

type_synonym 'ws dict_slots = "(string \<times> 'ws) option list"

fun dict_items :: "'ws dict_slots \<Rightarrow> (string \<times> 'ws) list" where
  "dict_items [] = []"
| "dict_items (None # slots) = dict_items slots"
| "dict_items (Some entry # slots) = entry # dict_items slots"

fun dict_delitem :: "string \<Rightarrow> 'ws dict_slots \<Rightarrow> 'ws dict_slots" where
  "dict_delitem key [] = []"
| "dict_delitem key (None # slots) = None # dict_delitem key slots"
| "dict_delitem key (Some (k, v) # slots) =
     (if k = key then None # slots else Some (k, v) # dict_delitem key slots)"

fun dict_setitem :: "string \<Rightarrow> 'ws \<Rightarrow> 'ws dict_slots \<Rightarrow> 'ws dict_slots" where
  "dict_setitem key websocket [] = [Some (key, websocket)]"
| "dict_setitem key websocket (None # slots) = None # dict_setitem key websocket slots"
| "dict_setitem key websocket (Some (k, v) # slots) =
     (if k = key then Some (key, websocket) # slots
      else Some (k, v) # dict_setitem key websocket slots)"

text \<open>
  A call made by an endpoint task, on the slots: \<open>add_websocket_client\<close> stores,
  \<open>remove_websocket_client\<close> deletes the key if it is present. (The log lines of these
  calls belong to the other task and are not listed among the effects of the pass.)
\<close>

fun run_client_call :: "'ws client_call \<Rightarrow> 'ws dict_slots \<Rightarrow> 'ws dict_slots" where
  "run_client_call (AddClient client_id websocket) slots =
     dict_setitem client_id websocket slots"
| "run_client_call (RemoveClient client_id) slots = dict_delitem client_id slots"

text \<open>The first slot that is not empty, with its index; \<open>i\<close> is the index of the head.\<close>

fun next_entry :: "nat \<Rightarrow> 'a option list \<Rightarrow> (nat \<times> 'a) option" where
  "next_entry i [] = None"
| "next_entry i (None # slots) = next_entry (Suc i) slots"
| "next_entry i (Some entry # slots) = Some (i, entry)"

text \<open>How a call of \<open>broadcast_health_update\<close> ends: it returns, or the \<open>for\<close> over
  the dict raises \<open>RuntimeError\<close>.\<close>

datatype outcome = Returned | RuntimeError

text \<open>
  The first loop of \<open>broadcast_health_update\<close>, over the live dict.
  \<open>send_text websocket msg\<close> tells whether \<open>await websocket.send_text(json.dumps(msg))\<close>
  returns (\<open>True\<close>) or raises (\<open>False\<close>); \<open>other_tasks k\<close> is the list of calls that
  endpoint tasks make on the dict while the \<open>k\<close>-th send of the pass (from 0) is
  awaited, empty when no other task runs then.

  The iterator of \<open>self.websocket_clients.items()\<close> holds the size of the dict when the
  loop began (\<open>used\<close>), the number of entries it may still yield (\<open>left\<close>) and the next
  slot to look at (\<open>pos\<close>). Each step of the \<open>for\<close> first compares the size of the dict
  with \<open>used\<close> and raises \<open>RuntimeError: dictionary changed size during iteration\<close> when
  they differ. Otherwise it skips the empty slots; when none is left the loop ends, and
  when there is an entry it is yielded, unless \<open>used\<close> entries have been yielded
  already: then the step raises \<open>RuntimeError: dictionary keys changed during
  iteration\<close>. The \<open>for\<close> line is outside the \<open>try\<close>, so either error leaves the loop
  and the method.

  The result is the effects of the pass, the list \<open>disconnected_clients\<close>, the slots of
  the dict after the pass and the way the loop ended.
\<close>

fun send_loop ::
  "('ws \<Rightarrow> update_message \<Rightarrow> bool) \<Rightarrow> (nat \<Rightarrow> 'ws client_call list) \<Rightarrow> update_message
   \<Rightarrow> nat \<Rightarrow> nat \<Rightarrow> nat \<Rightarrow> nat \<Rightarrow> 'ws dict_slots
   \<Rightarrow> effect list \<times> string list \<times> 'ws dict_slots \<times> outcome" where
  "send_loop send_text other_tasks msg used 0 k pos slots =
     (if length (dict_items slots) \<noteq> used then ([], [], slots, RuntimeError)
      else case next_entry pos (drop pos slots) of
             None \<Rightarrow> ([], [], slots, Returned)
           | Some (i, entry) \<Rightarrow> ([], [], slots, RuntimeError))"
| "send_loop send_text other_tasks msg used (Suc left) k pos slots =
     (if length (dict_items slots) \<noteq> used then ([], [], slots, RuntimeError)
      else case next_entry pos (drop pos slots) of
             None \<Rightarrow> ([], [], slots, Returned)
           | Some (i, (client_id, websocket)) \<Rightarrow>
               let (effects, disconnected_clients, slots', ended) =
                     send_loop send_text other_tasks msg used left (Suc k) (Suc i)
                       (fold run_client_call (other_tasks k) slots)
               in if send_text websocket msg
                  then (SendText client_id msg # effects, disconnected_clients, slots', ended)
                  else (LogSendFailed client_id # effects,
                        client_id # disconnected_clients, slots', ended))"

text \<open>The second loop: \<open>remove_websocket_client\<close> for each collected client id.\<close>

fun remove_all ::
  "(string \<times> 'ws) list \<Rightarrow> string list \<Rightarrow> (string \<times> 'ws) list \<times> effect list" where
  "remove_all clients [] = (clients, [])"
| "remove_all clients (client_id # rest) =
     (let (clients', effects) = remove_websocket_client clients client_id;
          (clients'', effects') = remove_all clients' rest
      in (clients'', effects @ effects'))"

text \<open>
  \<open>broadcast_health_update\<close>: nothing to do on an empty dict; otherwise the first loop
  and, when that loop ended without an error, the second one, which has no await and
  so runs without any other task in between. The result is the engine afterwards, the
  effects in their order and the way the call ended.
\<close>

definition broadcast_health_update ::
  "('ws \<Rightarrow> update_message \<Rightarrow> bool) \<Rightarrow> (nat \<Rightarrow> 'ws client_call list) \<Rightarrow> 'ws monitor_service
   \<Rightarrow> int \<Rightarrow> health_data \<Rightarrow> int \<Rightarrow> 'ws monitor_service \<times> effect list \<times> outcome" where
  "broadcast_health_update send_text other_tasks self sid data now =
     (if websocket_clients self = [] then (self, [], Returned)
      else
        let update_message =
              \<lparr> um_type = ''health_update'', um_server_id = sid, um_data = data,
                um_timestamp = now \<rparr>;
            used = length (websocket_clients self);
            (sent, disconnected_clients, slots, ended) =
              send_loop send_text other_tasks update_message used used 0 0
                (map Some (websocket_clients self))
        in case ended of
             RuntimeError \<Rightarrow> (self\<lparr> websocket_clients := dict_items slots \<rparr>, sent, RuntimeError)
           | Returned \<Rightarrow>
               let (clients', removed) = remove_all (dict_items slots) disconnected_clients
               in (self\<lparr> websocket_clients := clients' \<rparr>, sent @ removed, Returned))"

subsection \<open>Concrete inputs\<close>

text \<open>A reachable server for which no cpu, memory or disk value was measured.\<close>

definition no_metrics_up :: health_data where
  "no_metrics_up =
     \<lparr> checks = Some [''ping'' \<mapsto> [''status'' \<mapsto> ''up'']],
       cpu_usage = None, memory_usage = None, disk_usage = None, http_check = None \<rparr>"

text \<open>
  An alert created at time 0 and updated by a second call nine minutes later, and
  the alert that a call eleven minutes after time 0 creates.
\<close>

definition updated_row :: alert where
  "updated_row =
     \<lparr> server_id = 1, severity = ''critical'', message = ''CPU usage critical: 92.0%'',
       status = ''active'', metric = Some ''cpu_usage'', val = Some 92, count = 2,
       created_at = 0, updated_at = Some 540000000 \<rparr>"

definition second_row :: alert where
  "second_row =
     \<lparr> server_id = 1, severity = ''critical'', message = ''CPU usage critical: 92.0%'',
       status = ''active'', metric = Some ''cpu_usage'', val = Some 92, count = 1,
       created_at = 660000000, updated_at = None \<rparr>"

text \<open>Three clients; the connection of \<open>b\<close> is the one that rejects a send.\<close>

definition three_clients :: "nat monitor_service" where
  "three_clients =
     \<lparr> monitoring_active = True,
       websocket_clients = [(''a'', 1), (''b'', 2), (''c'', 3)] \<rparr>"

definition b_rejects :: "nat \<Rightarrow> update_message \<Rightarrow> bool" where
  "b_rejects websocket msg \<longleftrightarrow> websocket \<noteq> 2"

text \<open>
  Four clients, and a pass during which the connection of \<open>b\<close> has ended: the endpoint
  task of \<open>b\<close> reaches its \<open>finally\<close> and calls \<open>remove_websocket_client\<close> while the
  third send of the pass, the one to \<open>c\<close>, is awaited.
\<close>

definition four_clients :: "nat monitor_service" where
  "four_clients =
     \<lparr> monitoring_active = True,
       websocket_clients = [(''a'', 1), (''b'', 2), (''c'', 3), (''d'', 4)] \<rparr>"

definition b_endpoint_ends :: "nat \<Rightarrow> nat client_call list" where
  "b_endpoint_ends k = (if k = 2 then [RemoveClient ''b''] else [])"

section \<open>Properties\<close>

declare decimal_digits.simps [simp del]

subsection \<open>Health evaluator\<close>

text \<open>
  Claim C2. Whenever the ping check of a bundle reports \<open>down\<close>, the verdict is
  \<open>critical\<close>, for every threshold table and whatever the cpu, memory and disk values
  and the http check of the bundle are.
\<close>

theorem assess_ping_down_critical:
  assumes "ping_status_of data = Some ''down''"
  shows "assess_overall_health th data = ''critical''"
  using assms by (simp add: assess_overall_health_def)

theorem assess_ping_down_critical_witness:
  "ping_status_of \<lparr> checks = Some [''ping'' \<mapsto> [''status'' \<mapsto> ''down'']],
       cpu_usage = Some 10, memory_usage = Some 20, disk_usage = Some 30,
       http_check = None \<rparr> = Some ''down''
   \<and> assess_overall_health init_alert_thresholds
       \<lparr> checks = Some [''ping'' \<mapsto> [''status'' \<mapsto> ''down'']],
         cpu_usage = Some 10, memory_usage = Some 20, disk_usage = Some 30,
         http_check = None \<rparr> = ''critical''"
proof -
  have down: "ping_status_of \<lparr> checks = Some [''ping'' \<mapsto> [''status'' \<mapsto> ''down'']],
       cpu_usage = Some 10, memory_usage = Some 20, disk_usage = Some 30,
       http_check = None \<rparr> = Some ''down''"
    by (simp add: ping_status_of_def get_or_def)
  show ?thesis
    using down assess_ping_down_critical [OF down, of init_alert_thresholds] by simp
qed

text \<open>
  Claim C9. For every threshold table and every bundle the verdict is one of the three
  strings \<open>critical\<close>, \<open>warning\<close> and \<open>healthy\<close>; it is never \<open>unhealthy\<close> and never
  \<open>unknown\<close>.
\<close>

theorem assess_three_verdicts:
  "assess_overall_health th data \<in> {''critical'', ''warning'', ''healthy''}
   \<and> assess_overall_health th data \<noteq> ''unhealthy''
   \<and> assess_overall_health th data \<noteq> ''unknown''"
  by (simp add: assess_overall_health_def Let_def)

text \<open>
  Claim C4, as stated: a missing cpu, memory or disk value is treated as absent, not as
  0, and does not let the bundle reach the verdict \<open>healthy\<close> through a default of 0.
  It fails on the bundle of a reachable server with none of the three values: each
  lookup defaults to 0, the verdict is \<open>healthy\<close>, and it is the verdict of the same
  bundle with all three values measured as 0.
\<close>

theorem assess_missing_counterexample:
  "cpu_usage no_metrics_up = None
   \<and> memory_usage no_metrics_up = None
   \<and> disk_usage no_metrics_up = None
   \<and> assess_overall_health init_alert_thresholds no_metrics_up = ''healthy''
   \<and> assess_overall_health init_alert_thresholds no_metrics_up
     = assess_overall_health init_alert_thresholds
         (no_metrics_up\<lparr> cpu_usage := Some 0, memory_usage := Some 0, disk_usage := Some 0 \<rparr>)"
  by (simp add: assess_overall_health_def ping_status_of_def get_or_def
      no_metrics_up_def init_alert_thresholds_def)

text \<open>
  Claim C4, amended: for every threshold table and every bundle, a missing cpu, memory
  or disk value is evaluated as the value 0; the verdict is that of the same bundle
  with the value measured as 0.
\<close>

theorem assess_missing_as_zero:
  "assess_overall_health th (data\<lparr> cpu_usage := None \<rparr>)
     = assess_overall_health th (data\<lparr> cpu_usage := Some 0 \<rparr>)
   \<and> assess_overall_health th (data\<lparr> memory_usage := None \<rparr>)
     = assess_overall_health th (data\<lparr> memory_usage := Some 0 \<rparr>)
   \<and> assess_overall_health th (data\<lparr> disk_usage := None \<rparr>)
     = assess_overall_health th (data\<lparr> disk_usage := Some 0 \<rparr>)"
  by (simp add: assess_overall_health_def ping_status_of_def get_or_def)

text \<open>
  The default is an operand of the comparisons like any measured value: under a table
  whose cpu warning limit lies below 0, the bundle without a cpu value gets \<open>warning\<close>.
\<close>

lemma assess_default_is_compared:
  "assess_overall_health (init_alert_thresholds\<lparr> cpu_warning := - 1 \<rparr>) no_metrics_up
     = ''warning''"
  by (simp add: assess_overall_health_def ping_status_of_def get_or_def
      no_metrics_up_def init_alert_thresholds_def)

subsection \<open>Threshold checks\<close>

text \<open>
  On an empty table every entry of \<open>alerts_to_create\<close> becomes a row of its own: the
  messages of the three metrics differ, so none is merged into another.
\<close>

lemma check_health_thresholds_empty:
  "check_health_thresholds th sid data [] now
     = map (\<lambda>a. \<lparr> server_id = sid, severity = ad_severity a, message = ad_message a,
                   status = ''active'', metric = Some (ad_metric a), val = Some (ad_value a),
                   count = 1, created_at = now, updated_at = None \<rparr>)
         (alerts_to_create th data)"
  by (simp add: check_health_thresholds_def alerts_to_create_def create_alert_def
      dedup_filter_def Let_def)

text \<open>
  Claim C5. For each of cpu, memory and disk: when the measured value exceeds the
  critical threshold of the metric, the entries that \<open>check_health_thresholds\<close> builds
  for that metric are the critical one alone, so no warning entry for the metric goes
  to \<open>create_alert\<close>; on an empty table the rows written for the metric are one row
  of severity \<open>critical\<close>.
\<close>

theorem critical_alert_only:
  "(cpu_usage data = Some v \<and> cpu_critical th < v \<longrightarrow>
      filter (\<lambda>a. ad_metric a = ''cpu_usage'') (alerts_to_create th data)
        = [AlertData ''critical'' (''CPU usage critical: '' @ format_1f v @ ''%'')
             ''cpu_usage'' v]
      \<and> map severity (filter (\<lambda>r. metric r = Some ''cpu_usage'')
                        (check_health_thresholds th sid data [] now)) = [''critical''])
   \<and> (memory_usage data = Some v \<and> memory_critical th < v \<longrightarrow>
      filter (\<lambda>a. ad_metric a = ''memory_usage'') (alerts_to_create th data)
        = [AlertData ''critical'' (''Memory usage critical: '' @ format_1f v @ ''%'')
             ''memory_usage'' v]
      \<and> map severity (filter (\<lambda>r. metric r = Some ''memory_usage'')
                        (check_health_thresholds th sid data [] now)) = [''critical''])
   \<and> (disk_usage data = Some v \<and> disk_critical th < v \<longrightarrow>
      filter (\<lambda>a. ad_metric a = ''disk_usage'') (alerts_to_create th data)
        = [AlertData ''critical'' (''Disk usage critical: '' @ format_1f v @ ''%'')
             ''disk_usage'' v]
      \<and> map severity (filter (\<lambda>r. metric r = Some ''disk_usage'')
                        (check_health_thresholds th sid data [] now)) = [''critical''])"
  by (simp add: check_health_thresholds_empty filter_map comp_def
      alerts_to_create_def get_or_def Let_def)

theorem critical_alert_only_witness:
  "cpu_usage \<lparr> checks = None, cpu_usage = Some 96, memory_usage = Some 96,
               disk_usage = Some 96, http_check = None \<rparr> = Some 96
   \<and> cpu_critical init_alert_thresholds < 96
   \<and> memory_critical init_alert_thresholds < 96
   \<and> disk_critical init_alert_thresholds < 96
   \<and> alerts_to_create init_alert_thresholds
        \<lparr> checks = None, cpu_usage = Some 96, memory_usage = Some 96,
          disk_usage = Some 96, http_check = None \<rparr>
      = [AlertData ''critical'' ''CPU usage critical: 96.0%'' ''cpu_usage'' 96,
         AlertData ''critical'' ''Memory usage critical: 96.0%'' ''memory_usage'' 96,
         AlertData ''critical'' ''Disk usage critical: 96.0%'' ''disk_usage'' 96]
   \<and> map severity
        (check_health_thresholds init_alert_thresholds 1
           \<lparr> checks = None, cpu_usage = Some 96, memory_usage = Some 96,
             disk_usage = Some 96, http_check = None \<rparr> [] 0)
      = [''critical'', ''critical'', ''critical'']"
proof -
  have fmt: "format_1f 96 = ''96.0''"
    by (simp add: format_1f_def round_half_even_def decimal_digits.simps)
  show ?thesis
    using critical_alert_only [of
        "\<lparr> checks = None, cpu_usage = Some 96, memory_usage = Some 96,
           disk_usage = Some 96, http_check = None \<rparr>" 96 init_alert_thresholds 1 0]
    by (simp add: check_health_thresholds_empty alerts_to_create_def get_or_def
        init_alert_thresholds_def fmt)
qed

subsection \<open>Alert deduplication\<close>

lemma first_index_None_iff: "first_index P xs = None \<longleftrightarrow> (\<forall>x \<in> set xs. \<not> P x)"
  by (induction xs) auto

lemma first_index_Some:
  "first_index P xs = Some i \<Longrightarrow> i < length xs \<and> P (xs ! i) \<and> (\<forall>j < i. \<not> P (xs ! j))"
proof (induction xs arbitrary: i)
  case Nil
  then show ?case by simp
next
  case (Cons x xs)
  show ?case
  proof (cases "P x")
    case True
    with Cons.prems show ?thesis by simp
  next
    case False
    with Cons.prems obtain k where k: "first_index P xs = Some k" "i = Suc k"
      by auto
    from Cons.IH [OF k(1)] False k(2) show ?thesis
      by (auto simp: less_Suc_eq_0_disj)
  qed
qed

lemma first_index_skip:
  "\<forall>x \<in> set xs. \<not> P x \<Longrightarrow> P y \<Longrightarrow> first_index P (xs @ y # ys) = Some (length xs)"
  by (induction xs) auto

lemma create_alert_hit:
  "first_index (dedup_filter sid msg now) db = Some i \<Longrightarrow>
   create_alert db sid sev msg km kv now =
     (db[i := (db ! i)\<lparr> count := count (db ! i) + 1, updated_at := Some now \<rparr>],
      (db ! i)\<lparr> count := count (db ! i) + 1, updated_at := Some now \<rparr>)"
  by (simp add: create_alert_def Let_def)

lemma create_alert_miss:
  "first_index (dedup_filter sid msg now) db = None \<Longrightarrow>
   create_alert db sid sev msg km kv now =
     (db @ [\<lparr> server_id = sid, severity = sev, message = msg, status = ''active'',
              metric = km, val = kv, count = 1, created_at = now, updated_at = None \<rparr>],
      \<lparr> server_id = sid, severity = sev, message = msg, status = ''active'',
        metric = km, val = kv, count = 1, created_at = now, updated_at = None \<rparr>)"
  by (simp add: create_alert_def Let_def)

text \<open>
  Claim C1. Take a table in which the lookup for (server, message) finds nothing at the
  first call. A second call for the same server and message, not earlier than the first
  and at most ten minutes after it, leaves the table with the one new alert, now with
  count 2. A third call more than ten minutes after the first call adds a second alert
  with count 1 and leaves the first one as it was.
\<close>

theorem create_alert_twice_then_expired:
  assumes fresh: "first_index (dedup_filter sid msg t1) db = None"
    and order: "t1 \<le> t2"
    and within: "t2 - timedelta_minutes 10 \<le> t1"
    and expired: "t1 < t3 - timedelta_minutes 10"
  shows "fst (create_alert (fst (create_alert db sid sev1 msg km1 kv1 t1)) sid sev2 msg km2 kv2 t2)
           = db @ [\<lparr> server_id = sid, severity = sev1, message = msg, status = ''active'',
                     metric = km1, val = kv1, count = 2, created_at = t1,
                     updated_at = Some t2 \<rparr>]
       \<and> fst (create_alert
               (fst (create_alert (fst (create_alert db sid sev1 msg km1 kv1 t1))
                       sid sev2 msg km2 kv2 t2))
               sid sev3 msg km3 kv3 t3)
           = db @ [\<lparr> server_id = sid, severity = sev1, message = msg, status = ''active'',
                     metric = km1, val = kv1, count = 2, created_at = t1,
                     updated_at = Some t2 \<rparr>,
                   \<lparr> server_id = sid, severity = sev3, message = msg, status = ''active'',
                     metric = km3, val = kv3, count = 1, created_at = t3,
                     updated_at = None \<rparr>]"
proof -
  let ?a1 = "\<lparr> server_id = sid, severity = sev1, message = msg, status = ''active'',
               metric = km1, val = kv1, count = 1, created_at = t1, updated_at = None \<rparr>"
  let ?a2 = "\<lparr> server_id = sid, severity = sev1, message = msg, status = ''active'',
               metric = km1, val = kv1, count = 2, created_at = t1, updated_at = Some t2 \<rparr>"
  have none1: "\<forall>a \<in> set db. \<not> dedup_filter sid msg t1 a"
    using fresh by (simp add: first_index_None_iff)
  have none2: "\<forall>a \<in> set db. \<not> dedup_filter sid msg t2 a"
    using none1 order by (auto simp: dedup_filter_def)
  have none3: "\<forall>a \<in> set db. \<not> dedup_filter sid msg t3 a"
    using none1 order within expired by (auto simp: dedup_filter_def)
  have step1: "fst (create_alert db sid sev1 msg km1 kv1 t1) = db @ [?a1]"
    using fresh by (simp add: create_alert_miss)
  have hit: "first_index (dedup_filter sid msg t2) (db @ [?a1]) = Some (length db)"
    using none2 within by (intro first_index_skip) (simp_all add: dedup_filter_def)
  have step2: "fst (create_alert (db @ [?a1]) sid sev2 msg km2 kv2 t2) = db @ [?a2]"
    by (simp add: create_alert_hit [OF hit])
  have miss: "first_index (dedup_filter sid msg t3) (db @ [?a2]) = None"
    using none3 expired by (simp add: first_index_None_iff dedup_filter_def)
  have step3: "fst (create_alert (db @ [?a2]) sid sev3 msg km3 kv3 t3)
      = db @ [?a2, \<lparr> server_id = sid, severity = sev3, message = msg, status = ''active'',
                     metric = km3, val = kv3, count = 1, created_at = t3,
                     updated_at = None \<rparr>]"
    by (simp add: create_alert_miss [OF miss])
  show ?thesis
    by (simp only: step1 step2 step3)
qed

theorem create_alert_twice_then_expired_witness:
  "first_index (dedup_filter 1 ''CPU usage critical: 92.0%'' 0) [] = None
   \<and> (0 :: int) \<le> 300000000
   \<and> 300000000 - timedelta_minutes 10 \<le> 0
   \<and> 0 < 660000000 - timedelta_minutes 10
   \<and> fst (create_alert
            (fst (create_alert [] 1 ''critical'' ''CPU usage critical: 92.0%''
                    (Some ''cpu_usage'') (Some 92) 0))
            1 ''critical'' ''CPU usage critical: 92.0%'' (Some ''cpu_usage'') (Some 92)
            300000000)
       = [\<lparr> server_id = 1, severity = ''critical'', message = ''CPU usage critical: 92.0%'',
            status = ''active'', metric = Some ''cpu_usage'', val = Some 92, count = 2,
            created_at = 0, updated_at = Some 300000000 \<rparr>]
   \<and> fst (create_alert
            (fst (create_alert
                    (fst (create_alert [] 1 ''critical'' ''CPU usage critical: 92.0%''
                            (Some ''cpu_usage'') (Some 92) 0))
                    1 ''critical'' ''CPU usage critical: 92.0%'' (Some ''cpu_usage'') (Some 92)
                    300000000))
            1 ''critical'' ''CPU usage critical: 92.0%'' (Some ''cpu_usage'') (Some 92)
            660000000)
       = [\<lparr> server_id = 1, severity = ''critical'', message = ''CPU usage critical: 92.0%'',
            status = ''active'', metric = Some ''cpu_usage'', val = Some 92, count = 2,
            created_at = 0, updated_at = Some 300000000 \<rparr>,
          second_row]"
proof -
  have fresh: "first_index (dedup_filter 1 ''CPU usage critical: 92.0%'' 0) [] = None"
    by simp
  have order: "(0 :: int) \<le> 300000000"
    by simp
  have within: "(300000000 :: int) - timedelta_minutes 10 \<le> 0"
    by (simp add: timedelta_minutes_def)
  have expired: "(0 :: int) < 660000000 - timedelta_minutes 10"
    by (simp add: timedelta_minutes_def)
  have run: "fst (create_alert
            (fst (create_alert [] 1 ''critical'' ''CPU usage critical: 92.0%''
                    (Some ''cpu_usage'') (Some 92) 0))
            1 ''critical'' ''CPU usage critical: 92.0%'' (Some ''cpu_usage'') (Some 92)
            300000000)
       = [] @ [\<lparr> server_id = 1, severity = ''critical'', message = ''CPU usage critical: 92.0%'',
            status = ''active'', metric = Some ''cpu_usage'', val = Some 92, count = 2,
            created_at = 0, updated_at = Some 300000000 \<rparr>]
   \<and> fst (create_alert
            (fst (create_alert
                    (fst (create_alert [] 1 ''critical'' ''CPU usage critical: 92.0%''
                            (Some ''cpu_usage'') (Some 92) 0))
                    1 ''critical'' ''CPU usage critical: 92.0%'' (Some ''cpu_usage'') (Some 92)
                    300000000))
            1 ''critical'' ''CPU usage critical: 92.0%'' (Some ''cpu_usage'') (Some 92)
            660000000)
       = [] @ [\<lparr> server_id = 1, severity = ''critical'', message = ''CPU usage critical: 92.0%'',
            status = ''active'', metric = Some ''cpu_usage'', val = Some 92, count = 2,
            created_at = 0, updated_at = Some 300000000 \<rparr>,
          \<lparr> server_id = 1, severity = ''critical'', message = ''CPU usage critical: 92.0%'',
            status = ''active'', metric = Some ''cpu_usage'', val = Some 92, count = 1,
            created_at = 660000000, updated_at = None \<rparr>]"
    by (rule create_alert_twice_then_expired [OF fresh order within expired])
  show ?thesis
    unfolding second_row_def
    using fresh order within expired run [unfolded append_Nil] by blast
qed

text \<open>
  Claim C3, as stated: the lookup matches exactly when an active alert with the same
  server and message was created or updated within the trailing ten minutes. It fails
  on an alert created at time 0 and updated nine minutes later, looked up at eleven
  minutes: the update lies within the window, yet the lookup finds nothing and
  \<open>create_alert\<close> adds a second row.
\<close>

theorem dedup_lookup_counterexample:
  "fst (create_alert
          (fst (create_alert [] 1 ''critical'' ''CPU usage critical: 92.0%''
                  (Some ''cpu_usage'') (Some 92) 0))
          1 ''critical'' ''CPU usage critical: 92.0%'' (Some ''cpu_usage'') (Some 92) 540000000)
     = [updated_row]
   \<and> spec_dedup_filter 1 ''CPU usage critical: 92.0%'' 660000000 updated_row
   \<and> first_index (dedup_filter 1 ''CPU usage critical: 92.0%'' 660000000) [updated_row] = None
   \<and> fst (create_alert [updated_row] 1 ''critical'' ''CPU usage critical: 92.0%''
             (Some ''cpu_usage'') (Some 92) 660000000)
     = [updated_row, second_row]"
  by (simp add: create_alert_def dedup_filter_def spec_dedup_filter_def updated_row_def
      second_row_def timedelta_minutes_def Let_def)

text \<open>
  Claim C3, amended: the lookup of \<open>create_alert\<close> matches exactly when the table
  holds an active alert with the same server id and message whose \<open>created_at\<close> lies
  within the trailing ten minutes (\<open>updated_at\<close> is not consulted). When it matches,
  the first such row is updated in place (count plus one, \<open>updated_at\<close> set to the
  clock reading) and returned, and the table keeps its length.
\<close>

theorem create_alert_dedup_lookup:
  "(first_index (dedup_filter sid msg now) db \<noteq> None
      \<longleftrightarrow> (\<exists>a \<in> set db. server_id a = sid \<and> message a = msg \<and> status a = ''active''
                         \<and> now - timedelta_minutes 10 \<le> created_at a))
   \<and> (first_index (dedup_filter sid msg now) db \<noteq> None
      \<longrightarrow> length (fst (create_alert db sid sev msg km kv now)) = length db
          \<and> (\<exists>i < length db.
                first_index (dedup_filter sid msg now) db = Some i
                \<and> create_alert db sid sev msg km kv now
                    = (db[i := (db ! i)\<lparr> count := count (db ! i) + 1, updated_at := Some now \<rparr>],
                       (db ! i)\<lparr> count := count (db ! i) + 1, updated_at := Some now \<rparr>)))"
proof (intro conjI impI)
  show "first_index (dedup_filter sid msg now) db \<noteq> None
      \<longleftrightarrow> (\<exists>a \<in> set db. server_id a = sid \<and> message a = msg \<and> status a = ''active''
                         \<and> now - timedelta_minutes 10 \<le> created_at a)"
    by (auto simp: first_index_None_iff dedup_filter_def)
next
  assume "first_index (dedup_filter sid msg now) db \<noteq> None"
  then obtain i where i: "first_index (dedup_filter sid msg now) db = Some i"
    by auto
  then show "length (fst (create_alert db sid sev msg km kv now)) = length db"
    by (simp add: create_alert_hit)
  from first_index_Some [OF i] have "i < length db" by simp
  with i show "\<exists>i < length db.
                first_index (dedup_filter sid msg now) db = Some i
                \<and> create_alert db sid sev msg km kv now
                    = (db[i := (db ! i)\<lparr> count := count (db ! i) + 1, updated_at := Some now \<rparr>],
                       (db ! i)\<lparr> count := count (db ! i) + 1, updated_at := Some now \<rparr>)"
    by (auto simp: create_alert_hit)
qed

theorem create_alert_dedup_lookup_witness:
  "first_index (dedup_filter 1 ''CPU usage critical: 92.0%'' 590000000) [updated_row] \<noteq> None
   \<and> server_id updated_row = 1
   \<and> message updated_row = ''CPU usage critical: 92.0%''
   \<and> status updated_row = ''active''
   \<and> 590000000 - timedelta_minutes 10 \<le> created_at updated_row
   \<and> create_alert [updated_row] 1 ''warning'' ''CPU usage critical: 92.0%'' None None 590000000
       = ([updated_row\<lparr> count := 3, updated_at := Some 590000000 \<rparr>],
          updated_row\<lparr> count := 3, updated_at := Some 590000000 \<rparr>)"
proof -
  have found: "first_index (dedup_filter 1 ''CPU usage critical: 92.0%'' 590000000)
      [updated_row] \<noteq> None"
    by (simp add: dedup_filter_def updated_row_def timedelta_minutes_def)
  show ?thesis
    using found
      create_alert_dedup_lookup [of 1 "''CPU usage critical: 92.0%''" 590000000
        "[updated_row]" "''warning''" None None]
    by (auto simp: dedup_filter_def updated_row_def timedelta_minutes_def)
qed

text \<open>
  Claim C10. When the lookup of \<open>create_alert\<close> finds a row, the call changes the
  count and \<open>updated_at\<close> of that row and nothing else: every other row of the table
  is as before, and the severity, message, metric, value, status, creation time and
  server id of the row are as before, whatever severity, metric and value the call
  was given.
\<close>

theorem create_alert_dedup_frame:
  assumes hit: "first_index (dedup_filter sid msg now) db = Some i"
  shows "fst (create_alert db sid sev msg km kv now) ! i
           = snd (create_alert db sid sev msg km kv now)
       \<and> length (fst (create_alert db sid sev msg km kv now)) = length db
       \<and> (\<forall>j < length db. j \<noteq> i \<longrightarrow> fst (create_alert db sid sev msg km kv now) ! j = db ! j)
       \<and> snd (create_alert db sid sev msg km kv now)
           = (db ! i)\<lparr> count := count (db ! i) + 1, updated_at := Some now \<rparr>
       \<and> severity (snd (create_alert db sid sev msg km kv now)) = severity (db ! i)
       \<and> message (snd (create_alert db sid sev msg km kv now)) = message (db ! i)
       \<and> metric (snd (create_alert db sid sev msg km kv now)) = metric (db ! i)
       \<and> val (snd (create_alert db sid sev msg km kv now)) = val (db ! i)
       \<and> status (snd (create_alert db sid sev msg km kv now)) = status (db ! i)
       \<and> created_at (snd (create_alert db sid sev msg km kv now)) = created_at (db ! i)
       \<and> server_id (snd (create_alert db sid sev msg km kv now)) = server_id (db ! i)"
proof -
  from first_index_Some [OF hit] have "i < length db" by simp
  then show ?thesis
    by (simp add: create_alert_hit [OF hit])
qed

theorem create_alert_dedup_frame_witness:
  "first_index (dedup_filter 1 ''CPU usage critical: 92.0%'' 590000000)
       [second_row\<lparr> server_id := 2 \<rparr>, updated_row] = Some 1
   \<and> create_alert [second_row\<lparr> server_id := 2 \<rparr>, updated_row] 1 ''warning''
         ''CPU usage critical: 92.0%'' (Some ''memory_usage'') (Some 50) 590000000
       = ([second_row\<lparr> server_id := 2 \<rparr>,
           updated_row\<lparr> count := 3, updated_at := Some 590000000 \<rparr>],
          updated_row\<lparr> count := 3, updated_at := Some 590000000 \<rparr>)
   \<and> severity (snd (create_alert [second_row\<lparr> server_id := 2 \<rparr>, updated_row] 1 ''warning''
         ''CPU usage critical: 92.0%'' (Some ''memory_usage'') (Some 50) 590000000))
       = ''critical''
   \<and> metric (snd (create_alert [second_row\<lparr> server_id := 2 \<rparr>, updated_row] 1 ''warning''
         ''CPU usage critical: 92.0%'' (Some ''memory_usage'') (Some 50) 590000000))
       = Some ''cpu_usage''
   \<and> val (snd (create_alert [second_row\<lparr> server_id := 2 \<rparr>, updated_row] 1 ''warning''
         ''CPU usage critical: 92.0%'' (Some ''memory_usage'') (Some 50) 590000000))
       = Some 92"
proof -
  have hit: "first_index (dedup_filter 1 ''CPU usage critical: 92.0%'' 590000000)
       [second_row\<lparr> server_id := 2 \<rparr>, updated_row] = Some 1"
    by (simp add: dedup_filter_def updated_row_def second_row_def timedelta_minutes_def)
  show ?thesis
    using hit create_alert_dedup_frame [OF hit, of "''warning''" "Some ''memory_usage''" "Some 50"]
    by (simp add: create_alert_def dedup_filter_def timedelta_minutes_def Let_def
        updated_row_def second_row_def)
qed

lemma create_alerts_all_update:
  "all_update i db sid msg calls \<Longrightarrow>
   map (\<lambda>s. count (s ! i)) (create_alerts db sid msg calls)
     = map (\<lambda>k. count (db ! i) + 1 + int k) [0 ..< length calls]
   \<and> map (\<lambda>s. updated_at (s ! i)) (create_alerts db sid msg calls)
     = map (\<lambda>c. Some (call_time c)) calls"
proof (induction calls arbitrary: db)
  case Nil
  then show ?case by simp
next
  case (Cons c calls)
  obtain sev km kv now where c: "c = (sev, km, kv, now)"
    by (cases c) auto
  let ?db' = "fst (create_alert db sid sev msg km kv now)"
  from Cons.prems c have hit: "first_index (dedup_filter sid msg now) db = Some i"
    and rest: "all_update i ?db' sid msg calls"
    by simp_all
  from first_index_Some [OF hit] have i: "i < length db" by simp
  have row: "?db' ! i = (db ! i)\<lparr> count := count (db ! i) + 1, updated_at := Some now \<rparr>"
    using i by (simp add: create_alert_hit [OF hit])
  have shift: "map (\<lambda>k. count (db ! i) + 1 + int k) [0 ..< Suc (length calls)]
      = (count (db ! i) + 1) # map (\<lambda>k. count (?db' ! i) + 1 + int k) [0 ..< length calls]"
    by (simp add: row upt_conv_Cons map_Suc_upt [symmetric] del: upt_Suc)
  from Cons.IH [OF rest] show ?case
    by (simp add: c Let_def row shift call_time_def del: upt_Suc)
qed

text \<open>
  Claim C8, as stated: across successive updates of one alert the count never goes
  down and \<open>updated_at\<close> never goes back. The second half fails when the clock is set
  back between two updates: \<open>create_alert\<close> stores the reading of
  \<open>datetime.utcnow()\<close>, the wall clock, and does not compare it with the value already
  stored. Two calls that both update the alert created at time 0, the first at a clock
  reading of 590 s and the second at a reading of 560 s, leave \<open>updated_at\<close> at 590 s
  and then at 560 s, while the count goes from 2 to 3 to 4.
\<close>

theorem create_alert_updated_at_counterexample:
  "first_index (dedup_filter 1 ''CPU usage critical: 92.0%'' 590000000) [updated_row] = Some 0
   \<and> first_index (dedup_filter 1 ''CPU usage critical: 92.0%'' 560000000)
        (fst (create_alert [updated_row] 1 ''critical'' ''CPU usage critical: 92.0%''
                (Some ''cpu_usage'') (Some 92) 590000000)) = Some 0
   \<and> count (snd (create_alert [updated_row] 1 ''critical'' ''CPU usage critical: 92.0%''
                (Some ''cpu_usage'') (Some 92) 590000000)) = 3
   \<and> updated_at (snd (create_alert [updated_row] 1 ''critical'' ''CPU usage critical: 92.0%''
                (Some ''cpu_usage'') (Some 92) 590000000)) = Some 590000000
   \<and> count (snd (create_alert
                (fst (create_alert [updated_row] 1 ''critical'' ''CPU usage critical: 92.0%''
                        (Some ''cpu_usage'') (Some 92) 590000000))
                1 ''critical'' ''CPU usage critical: 92.0%'' (Some ''cpu_usage'') (Some 92)
                560000000)) = 4
   \<and> updated_at (snd (create_alert
                (fst (create_alert [updated_row] 1 ''critical'' ''CPU usage critical: 92.0%''
                        (Some ''cpu_usage'') (Some 92) 590000000))
                1 ''critical'' ''CPU usage critical: 92.0%'' (Some ''cpu_usage'') (Some 92)
                560000000)) = Some 560000000"
  by (simp add: create_alert_def dedup_filter_def updated_row_def timedelta_minutes_def
      Let_def)

text \<open>
  Claim C8, amended. Take successive calls of \<open>create_alert\<close> that all update the same
  row, at any clock readings. After the k-th of them the count of the row is its count
  before the calls plus k, so the counts rise by exactly one per update and never
  fall; and \<open>updated_at\<close> of the row is the clock reading of that call. So the values
  of \<open>updated_at\<close> are non-decreasing exactly when the clock readings of the calls
  are.
\<close>

theorem create_alert_updates_count_and_stamp:
  assumes upd: "all_update i db sid msg calls"
  shows "map (\<lambda>s. count (s ! i)) (create_alerts db sid msg calls)
           = map (\<lambda>k. count (db ! i) + 1 + int k) [0 ..< length calls]
       \<and> sorted_wrt (<)
           (count (db ! i) # map (\<lambda>s. count (s ! i)) (create_alerts db sid msg calls))
       \<and> map (\<lambda>s. updated_at (s ! i)) (create_alerts db sid msg calls)
           = map (\<lambda>c. Some (call_time c)) calls
       \<and> (sorted (map (\<lambda>s. the (updated_at (s ! i))) (create_alerts db sid msg calls))
            \<longleftrightarrow> sorted (map call_time calls))"
proof -
  note eqs = create_alerts_all_update [OF upd]
  have counts: "map (\<lambda>s. count (s ! i)) (create_alerts db sid msg calls)
           = map (\<lambda>k. count (db ! i) + 1 + int k) [0 ..< length calls]"
    using eqs by simp
  have stamps: "map (\<lambda>s. updated_at (s ! i)) (create_alerts db sid msg calls)
           = map (\<lambda>c. Some (call_time c)) calls"
    using eqs by simp
  have "sorted_wrt (<) (map (\<lambda>k. count (db ! i) + 1 + int k) [0 ..< length calls])"
    by (simp add: sorted_wrt_map sorted_wrt_iff_nth_less)
  then have strict: "sorted_wrt (<)
      (count (db ! i) # map (\<lambda>s. count (s ! i)) (create_alerts db sid msg calls))"
    by (auto simp: counts)
  have "map (\<lambda>s. the (updated_at (s ! i))) (create_alerts db sid msg calls)
      = map the (map (\<lambda>s. updated_at (s ! i)) (create_alerts db sid msg calls))"
    by simp
  also have "\<dots> = map call_time calls"
    by (simp add: stamps comp_def)
  finally have "sorted (map (\<lambda>s. the (updated_at (s ! i))) (create_alerts db sid msg calls))
      \<longleftrightarrow> sorted (map call_time calls)"
    by simp
  with counts stamps strict show ?thesis by blast
qed

theorem create_alert_updates_count_and_stamp_witness:
  "all_update 0 [updated_row] 1 ''CPU usage critical: 92.0%''
       [(''critical'', Some ''cpu_usage'', Some 92, 560000000),
        (''warning'', None, None, 590000000)]
   \<and> map (\<lambda>s. count (s ! 0))
        (create_alerts [updated_row] 1 ''CPU usage critical: 92.0%''
           [(''critical'', Some ''cpu_usage'', Some 92, 560000000),
            (''warning'', None, None, 590000000)]) = [3, 4]
   \<and> map (\<lambda>s. updated_at (s ! 0))
        (create_alerts [updated_row] 1 ''CPU usage critical: 92.0%''
           [(''critical'', Some ''cpu_usage'', Some 92, 560000000),
            (''warning'', None, None, 590000000)]) = [Some 560000000, Some 590000000]
   \<and> sorted (map (\<lambda>s. the (updated_at (s ! 0)))
        (create_alerts [updated_row] 1 ''CPU usage critical: 92.0%''
           [(''critical'', Some ''cpu_usage'', Some 92, 560000000),
            (''warning'', None, None, 590000000)]))"
proof -
  have upd: "all_update 0 [updated_row] 1 ''CPU usage critical: 92.0%''
       [(''critical'', Some ''cpu_usage'', Some 92, 560000000),
        (''warning'', None, None, 590000000)]"
    by (simp add: create_alert_def dedup_filter_def updated_row_def timedelta_minutes_def
        Let_def)
  show ?thesis
    using upd create_alert_updates_count_and_stamp [OF upd]
    by (simp add: call_time_def updated_row_def upt_conv_Cons)
qed

subsection \<open>Broadcast\<close>

lemma dict_items_map_Some: "dict_items (map Some clients) = clients"
  by (induction clients) simp_all

lemma send_loop_undisturbed:
  "pos + left = length clients \<Longrightarrow>
   send_loop send_text (\<lambda>k. []) msg (length clients) left k pos (map Some clients)
     = (map (\<lambda>entry. if send_text (snd entry) msg then SendText (fst entry) msg
                      else LogSendFailed (fst entry)) (drop pos clients),
        map fst (filter (\<lambda>entry. \<not> send_text (snd entry) msg) (drop pos clients)),
        map Some clients, Returned)"
proof (induction left arbitrary: pos k)
  case 0
  then show ?case by (simp add: dict_items_map_Some)
next
  case (Suc left)
  then have pos: "pos < length clients" and rest: "Suc pos + left = length clients"
    by simp_all
  obtain client_id websocket where entry: "clients ! pos = (client_id, websocket)"
    by (cases "clients ! pos") auto
  have dropped: "drop pos clients = (client_id, websocket) # drop (Suc pos) clients"
    using pos entry by (simp add: Cons_nth_drop_Suc [symmetric])
  have found: "next_entry pos (drop pos (map Some clients)) = Some (pos, client_id, websocket)"
    by (simp add: drop_map dropped)
  show ?case
    by (simp add: dict_items_map_Some found Suc.IH [OF rest] dropped)
qed

lemma filter_single_key:
  "distinct (map fst xs) \<Longrightarrow> (c, w) \<in> set xs \<Longrightarrow> Q (c, w)
   \<Longrightarrow> \<forall>e \<in> set xs. fst e \<noteq> c \<longrightarrow> \<not> Q e
   \<Longrightarrow> filter Q xs = [(c, w)]"
proof (induction xs)
  case Nil
  then show ?case by simp
next
  case (Cons x xs)
  show ?case
  proof (cases "x = (c, w)")
    case True
    with Cons.prems have "\<forall>e \<in> set xs. fst e \<noteq> c"
      by (auto simp: image_iff)
    with Cons.prems have "filter Q xs = []"
      by (auto simp: filter_empty_conv)
    with True Cons.prems show ?thesis by simp
  next
    case False
    with Cons.prems have mem: "(c, w) \<in> set xs" by simp
    with Cons.prems have "fst x \<noteq> c"
      by (auto simp: image_iff)
    with Cons.prems have "\<not> Q x" by simp
    moreover from Cons.IH [OF _ mem] Cons.prems have "filter Q xs = [(c, w)]" by simp
    ultimately show ?thesis by simp
  qed
qed

text \<open>
  A pass during which no other task touches the dict. Let the clients have pairwise
  different ids, let the send to the connection of client \<open>c\<close> fail and the send to
  every other client succeed. Then the call returns; its first N effects, N the number
  of clients, are the fan-out pass, with a delivered message for each of the other
  N - 1 clients and the failure of \<open>c\<close>; the removal of \<open>c\<close> is the one effect after
  the pass, and the clients left are all the others, in their order.
\<close>

lemma broadcast_undisturbed:
  assumes keys: "distinct (map fst (websocket_clients self))"
    and member: "(c, w) \<in> set (websocket_clients self)"
    and fails: "\<not> send_text w \<lparr> um_type = ''health_update'', um_server_id = sid,
                                um_data = data, um_timestamp = now \<rparr>"
    and others: "\<forall>e \<in> set (websocket_clients self). fst e \<noteq> c \<longrightarrow>
                  send_text (snd e) \<lparr> um_type = ''health_update'', um_server_id = sid,
                                      um_data = data, um_timestamp = now \<rparr>"
  shows "broadcast_health_update send_text (\<lambda>k. []) self sid data now
           = (self\<lparr> websocket_clients := filter (\<lambda>e. fst e \<noteq> c) (websocket_clients self) \<rparr>,
              map (\<lambda>e. if fst e = c then LogSendFailed c
                        else SendText (fst e) \<lparr> um_type = ''health_update'',
                               um_server_id = sid, um_data = data, um_timestamp = now \<rparr>)
                (websocket_clients self) @ [LogDisconnected c],
              Returned)"
proof -
  let ?msg = "\<lparr> um_type = ''health_update'', um_server_id = sid,
                um_data = data, um_timestamp = now \<rparr>"
  let ?cs = "websocket_clients self"
  have nonempty: "?cs \<noteq> []" using member by auto
  have failing: "filter (\<lambda>e. \<not> send_text (snd e) ?msg) ?cs = [(c, w)]"
    using keys member fails others by (intro filter_single_key) auto
  have sent: "map (\<lambda>e. if send_text (snd e) ?msg then SendText (fst e) ?msg
                        else LogSendFailed (fst e)) ?cs
      = map (\<lambda>e. if fst e = c then LogSendFailed c else SendText (fst e) ?msg) ?cs"
  proof (rule map_cong [OF refl])
    fix e assume e: "e \<in> set ?cs"
    show "(if send_text (snd e) ?msg then SendText (fst e) ?msg else LogSendFailed (fst e))
        = (if fst e = c then LogSendFailed c else SendText (fst e) ?msg)"
    proof (cases "fst e = c")
      case True
      with keys member e have "e = (c, w)"
        by (metis eq_key_imp_eq_value prod.collapse)
      with fails show ?thesis by simp
    next
      case False
      with others e show ?thesis by simp
    qed
  qed
  have loop: "send_loop send_text (\<lambda>k. []) ?msg (length ?cs) (length ?cs) 0 0 (map Some ?cs)
      = (map (\<lambda>e. if fst e = c then LogSendFailed c else SendText (fst e) ?msg) ?cs,
         [c], map Some ?cs, Returned)"
    using send_loop_undisturbed [of 0 "length ?cs" ?cs send_text ?msg 0]
    by (simp add: failing sent)
  have inkeys: "c \<in> set (map fst ?cs)" using member by (force simp: image_iff)
  have rem: "remove_all ?cs [c] = (filter (\<lambda>e. fst e \<noteq> c) ?cs, [LogDisconnected c])"
    using inkeys by (simp add: remove_websocket_client_def)
  show ?thesis
    using nonempty
    by (simp add: broadcast_health_update_def loop rem dict_items_map_Some Let_def
        del: remove_all.simps)
qed

text \<open>
  Claim C6, at a pass during which the connection of the failing subscriber ends. The
  engine has the four clients \<open>a\<close>, \<open>b\<close>, \<open>c\<close>, \<open>d\<close>; the send to \<open>b\<close> fails and the
  three other sends succeed; while the send to \<open>c\<close> is awaited, the endpoint task of
  \<open>b\<close> removes \<open>b\<close> from the dict. The pass delivers the event to \<open>a\<close> and to \<open>c\<close>;
  then the \<open>for\<close> finds the dict one entry shorter and raises \<open>RuntimeError\<close>, so the
  call ends there: \<open>d\<close> never receives the event although its send would succeed, and
  the loop that removes the failed clients after the pass is not reached.
\<close>

theorem broadcast_interrupted_pass:
  "broadcast_health_update b_rejects b_endpoint_ends four_clients 7 no_metrics_up 0
     = (four_clients\<lparr> websocket_clients := [(''a'', 1), (''c'', 3), (''d'', 4)] \<rparr>,
        [SendText ''a'' \<lparr> um_type = ''health_update'', um_server_id = 7,
                           um_data = no_metrics_up, um_timestamp = 0 \<rparr>,
         LogSendFailed ''b'',
         SendText ''c'' \<lparr> um_type = ''health_update'', um_server_id = 7,
                           um_data = no_metrics_up, um_timestamp = 0 \<rparr>],
        RuntimeError)
   \<and> b_rejects 4 \<lparr> um_type = ''health_update'', um_server_id = 7,
                     um_data = no_metrics_up, um_timestamp = 0 \<rparr>
   \<and> SendText ''d'' \<lparr> um_type = ''health_update'', um_server_id = 7,
                       um_data = no_metrics_up, um_timestamp = 0 \<rparr>
       \<notin> set (fst (snd (broadcast_health_update b_rejects b_endpoint_ends four_clients 7
                          no_metrics_up 0)))"
  by (simp add: broadcast_health_update_def four_clients_def b_rejects_def
      b_endpoint_ends_def Let_def)

subsection \<open>Engine start\<close>

text \<open>
  Claim C7. When \<open>monitoring_active\<close> is already set, \<open>start_monitoring\<close> returns the
  engine unchanged and has no effect at all: no task is created and nothing is logged.
  So a start right after a start changes nothing and creates no further task.
\<close>

theorem start_monitoring_idempotent:
  "(monitoring_active self \<longrightarrow> start_monitoring self = (self, []))
   \<and> start_monitoring (fst (start_monitoring self)) = (fst (start_monitoring self), [])"
  by (simp add: start_monitoring_def)

theorem start_monitoring_idempotent_witness:
  "monitoring_active three_clients
   \<and> start_monitoring three_clients = (three_clients, [])
   \<and> start_monitoring (fst (start_monitoring (three_clients\<lparr> monitoring_active := False \<rparr>)))
       = (three_clients, [])
   \<and> length (filter (\<lambda>e. case e of CreateTask n \<Rightarrow> True | _ \<Rightarrow> False)
        (snd (start_monitoring (three_clients\<lparr> monitoring_active := False \<rparr>)))) = 4"
proof -
  have active: "monitoring_active three_clients"
    by (simp add: three_clients_def)
  show ?thesis
    using active start_monitoring_idempotent [of three_clients]
      start_monitoring_idempotent [of "three_clients\<lparr> monitoring_active := False \<rparr>"]
    by (simp add: start_monitoring_def three_clients_def)
qed

end
